theory Spec2Isabelle
  imports Complex_Main
begin

section \<open>Time\<close>

text \<open>
  An instant (\<open>datetime\<close>, UTC) is a whole number of microseconds since the epoch, and a
  \<open>timedelta\<close> is a whole number of microseconds. What the probe returns and the two
  settings are numbers of seconds: rationals, as every finite float is one.
\<close>

type_synonym seconds = rat
type_synonym microseconds = int
type_synonym instant = int

text \<open>\<open>timedelta(milliseconds=1)\<close>.\<close>

definition td1ms :: microseconds where
  "td1ms = 1000"

text \<open>Rounding to the nearest integer, a tie going to the even neighbour.\<close>

definition round_half_even :: "rat \<Rightarrow> int" where
  "round_half_even x =
     (let f = \<lfloor>x\<rfloor>; r = x - of_int f in
      if r < 1 / 2 then f
      else if 1 / 2 < r then f + 1
      else if even f then f else f + 1)"

text \<open>
  \<open>timedelta(seconds=s)\<close>: the number of seconds is rounded to whole microseconds, half to
  even. The library forms the product of the fractional part with \<open>10^6\<close> in double
  arithmetic before it rounds, which the exact product here leaves out: a reading that is a
  whole number of microseconds is converted exactly, and any other to one of its two
  neighbours.
\<close>

definition timedelta :: "seconds \<Rightarrow> microseconds" where
  "timedelta s = round_half_even (s * 1000000)"

section \<open>Settings\<close>

datatype error = KeyError string | AssertionError string

type_synonym config_section = "string \<rightharpoonup> rat"

record Settings =
  timeout :: seconds
  poll_time :: seconds

text \<open>\<open>config_section[key]\<close>: a missing key raises.\<close>

definition getitem :: "config_section \<Rightarrow> string \<Rightarrow> error + rat" where
  "getitem config_section k =
     (case config_section k of None \<Rightarrow> Inl (KeyError k) | Some v \<Rightarrow> Inr v)"

text \<open>
  \<open>arg or config_section[key]\<close>: Python's \<open>or\<close> returns its left operand when that is truthy
  and evaluates the right one only otherwise. An argument is \<open>None\<close> or a number; \<open>None\<close>
  and zero are the falsy ones.
\<close>

definition arg_or_config :: "rat option \<Rightarrow> config_section \<Rightarrow> string \<Rightarrow> error + rat" where
  "arg_or_config a config_section k =
     (case a of
        None \<Rightarrow> getitem config_section k
      | Some v \<Rightarrow> if v \<noteq> 0 then Inr v else getitem config_section k)"

text \<open>\<open>Settings.__init__\<close>, with the \<open>assert\<close> statement enabled.\<close>

definition Settings_init :: "config_section \<Rightarrow> rat option \<Rightarrow> rat option \<Rightarrow> error + Settings" where
  "Settings_init config_section timeout_arg poll_time_arg =
     (case arg_or_config timeout_arg config_section ''timeout'' of
        Inl e \<Rightarrow> Inl e
      | Inr t \<Rightarrow>
          (case arg_or_config poll_time_arg config_section ''poll_time'' of
             Inl e \<Rightarrow> Inl e
           | Inr p \<Rightarrow>
               if t \<ge> p then Inr \<lparr>timeout = t, poll_time = p\<rparr>
               else Inl (AssertionError ''Timeout must be greater than or equal to poll_time'')))"

section \<open>The watcher and its heartbeats\<close>

record args =
  arg_timeout :: "rat option"
  arg_poll_time :: "rat option"

record AFKWatcher =
  settings :: Settings
  bucketname :: string

text \<open>
  \<open>AFKWatcher.__init__\<close>. The configuration that \<open>load_config\<close> returns and the name the
  event-store client reports are inputs here: both come from collaborators.
\<close>

definition AFKWatcher_init :: "config_section \<Rightarrow> string \<Rightarrow> args \<Rightarrow> error + AFKWatcher" where
  "AFKWatcher_init config client_name a =
     (case Settings_init config (arg_timeout a) (arg_poll_time a) of
        Inl e \<Rightarrow> Inl e
      | Inr s \<Rightarrow> Inr \<lparr>settings = s, bucketname = client_name\<rparr>)"

record event_data =
  status :: string
  app :: string
  title :: string

record Event =
  timestamp :: instant
  duration :: seconds
  data :: event_data

text \<open>One call of \<open>client.heartbeat(bucket_id, event, pulsetime=..., queued=...)\<close>.\<close>

record heartbeat =
  bucket_id :: string
  event :: Event
  pulsetime :: seconds
  queued :: bool

definition status_of :: "bool \<Rightarrow> string" where
  "status_of afk = (if afk then ''afk'' else ''not-afk'')"

text \<open>
  \<open>AFKWatcher.ping\<close>. The optional \<open>duration\<close> parameter is \<open>None\<close> when the caller leaves
  it out, and then takes its default.
\<close>

definition ping :: "AFKWatcher \<Rightarrow> bool \<Rightarrow> instant \<Rightarrow> seconds option \<Rightarrow> heartbeat" where
  "ping self afk ts dur =
     \<lparr>bucket_id = bucketname self,
      event = \<lparr>timestamp = ts,
               duration = (case dur of None \<Rightarrow> 0 | Some d \<Rightarrow> d),
               data = \<lparr>status = status_of afk, app = ''afk'', title = ''Idle time''\<rparr>\<rparr>,
      pulsetime = timeout (settings self) + poll_time (settings self),
      queued = True\<rparr>"

section \<open>The idle-time probe\<close>

text \<open>
  What a call that may raise gives back: a number of seconds, or an exception with its
  message. For the probe as the loop sees it (lines 102 and 103 of \<open>afk.py\<close>) \<open>Raises\<close> also
  stands for a value that \<open>timedelta\<close> or the subtraction from \<open>now\<close> rejects (not a
  number, infinite, out of \<open>datetime\<close>'s range): the same handler catches it.
\<close>

datatype reading = Seconds seconds | Raises string

text \<open>
  \<open>macos.seconds_since_last_input\<close>, over the outcome of the Quartz call: the lines it
  prints and the value it returns.
\<close>

definition seconds_since_last_input :: "reading \<Rightarrow> string list \<times> reading" where
  "seconds_since_last_input quartz =
     (case quartz of
        Seconds s \<Rightarrow> ([], Seconds s)
      | Raises e \<Rightarrow> ([''Error retrieving input event time: '' @ e], Seconds (- 1)))"

section \<open>The heartbeat loop\<close>

datatype system = Windows | Darwin | Linux

text \<open>
  What one pass of the loop reads from its environment: the parent's process id, the clock,
  the probe, and whether a keyboard interrupt arrives while the pass sleeps.
\<close>

record tick =
  ppid :: nat
  now :: instant
  probe :: reading
  interrupt :: bool

datatype log_record = Info string | Debug_seconds seconds | Error string

datatype effect = Log log_record | Create_bucket string string bool | Heartbeat heartbeat

datatype flow = Continue | Break

fun heartbeats :: "effect list \<Rightarrow> heartbeat list" where
  "heartbeats [] = []"
| "heartbeats (Heartbeat h # es) = h # heartbeats es"
| "heartbeats (_ # es) = heartbeats es"

definition parent_died :: "system \<Rightarrow> tick \<Rightarrow> bool" where
  "parent_died sys t = ((sys = Darwin \<or> sys = Linux) \<and> ppid t = 1)"

text \<open>Lines 106 to 124: the pings of one pass and the new value of \<open>afk\<close>.\<close>

definition state_change :: "AFKWatcher \<Rightarrow> bool \<Rightarrow> instant \<Rightarrow> seconds \<Rightarrow> effect list \<times> bool" where
  "state_change self afk now_utc seconds_since_input =
     (let last_input = now_utc - timedelta seconds_since_input in
      if afk \<and> seconds_since_input < timeout (settings self) then
        ([Log (Info ''No longer AFK''),
          Heartbeat (ping self False last_input None),
          Heartbeat (ping self False (last_input + td1ms) None)], False)
      else if \<not> afk \<and> seconds_since_input \<ge> timeout (settings self) then
        ([Log (Info ''Became AFK''),
          Heartbeat (ping self True last_input None),
          Heartbeat (ping self True now_utc None)], True)
      else if afk then ([Heartbeat (ping self True now_utc None)], afk)
      else ([Heartbeat (ping self False last_input None)], afk))"

text \<open>
  Line 126 and the handlers: \<open>sleep\<close> raises \<open>ValueError\<close> on a negative length, and a
  keyboard interrupt ends the sleep.
\<close>

definition sleep_poll :: "AFKWatcher \<Rightarrow> tick \<Rightarrow> effect list \<times> flow" where
  "sleep_poll self t =
     (if poll_time (settings self) < 0 then
        ([Log (Error ''Unexpected error occurred: sleep length must be non-negative'')], Break)
      else if interrupt t then
        ([Log (Info ''sd-watcher-afk stopped by keyboard interrupt'')], Break)
      else ([], Continue))"

text \<open>One pass of the \<open>while True\<close> body: what it emits, \<open>afk\<close> after it, and whether the loop goes on.\<close>

definition cycle :: "system \<Rightarrow> AFKWatcher \<Rightarrow> bool \<Rightarrow> tick \<Rightarrow> effect list \<times> bool \<times> flow" where
  "cycle sys self afk t =
     (if parent_died sys t then
        ([Log (Info ''afkwatcher stopped because parent process died'')], afk, Break)
      else
        (case probe t of
           Raises e \<Rightarrow> ([Log (Error (''Unexpected error occurred: '' @ e))], afk, Break)
         | Seconds seconds_since_input \<Rightarrow>
             (case state_change self afk (now t) seconds_since_input of
                (pings, afk') \<Rightarrow>
                  (case sleep_poll self t of
                     (logs, fl) \<Rightarrow>
                       (Log (Debug_seconds seconds_since_input) # pings @ logs, afk', fl)))))"

text \<open>
  The loop over the passes the environment supplies. \<open>Continue\<close> in the result says the loop
  is still running when the supplied passes are used up.
\<close>

fun heartbeat_loop_from :: "system \<Rightarrow> AFKWatcher \<Rightarrow> bool \<Rightarrow> tick list \<Rightarrow> effect list \<times> bool \<times> flow" where
  "heartbeat_loop_from sys self afk [] = ([], afk, Continue)"
| "heartbeat_loop_from sys self afk (t # ts) =
     (case cycle sys self afk t of
        (out, afk', Break) \<Rightarrow> (out, afk', Break)
      | (out, afk', Continue) \<Rightarrow>
          (case heartbeat_loop_from sys self afk' ts of
             (rest, r) \<Rightarrow> (out @ rest, r)))"

definition heartbeat_loop :: "system \<Rightarrow> AFKWatcher \<Rightarrow> tick list \<Rightarrow> effect list \<times> bool \<times> flow" where
  "heartbeat_loop sys self ts = heartbeat_loop_from sys self False ts"

text \<open>
  \<open>AFKWatcher.run\<close>: what it logs and asks of the event store before it enters the loop. Its
  one-second sleep and the opening and closing of the client add nothing to the effects.
\<close>

definition run :: "system \<Rightarrow> AFKWatcher \<Rightarrow> tick list \<Rightarrow> effect list" where
  "run sys self ts =
     Log (Info ''sd-watcher-afk started'')
     # Create_bucket (bucketname self) ''afkstatus'' True
     # fst (heartbeat_loop sys self ts)"

section \<open>Observations and sample inputs\<close>

text \<open>The statuses and the timestamps of the heartbeats among some effects, in order.\<close>

definition statuses :: "effect list \<Rightarrow> string list" where
  "statuses es = map (\<lambda>h. status (data (event h))) (heartbeats es)"

definition stamps :: "effect list \<Rightarrow> instant list" where
  "stamps es = map (\<lambda>h. timestamp (event h)) (heartbeats es)"

text \<open>The settings of the specification's scenario: a timeout of 60 s, polled every 5 s.\<close>

definition scenario_watcher :: AFKWatcher where
  "scenario_watcher =
     \<lparr>settings = \<lparr>timeout = 60, poll_time = 5\<rparr>, bucketname = ''sd-watcher-afk''\<rparr>"

text \<open>A watcher whose configuration sets both the timeout and the poll time to zero.\<close>

definition zero_watcher :: AFKWatcher where
  "zero_watcher =
     \<lparr>settings = \<lparr>timeout = 0, poll_time = 0\<rparr>, bucketname = ''sd-watcher-afk''\<rparr>"

text \<open>
  A pass at instant \<open>n\<close> (in microseconds) whose probe returns \<open>s\<close> seconds, with a live parent
  and no interrupt.
\<close>

definition tick_at :: "instant \<Rightarrow> seconds \<Rightarrow> tick" where
  "tick_at n s = \<lparr>ppid = 4242, now = n, probe = Seconds s, interrupt = False\<rparr>"

text \<open>A configuration section with a timeout of 180 s and a poll time of 5 s.\<close>

definition sample_config :: config_section where
  "sample_config = [''timeout'' \<mapsto> 180, ''poll_time'' \<mapsto> 5]"

text \<open>What every call of \<open>ping\<close> that leaves \<open>duration\<close> out gives the event store.\<close>

definition sent_by_ping :: "AFKWatcher \<Rightarrow> heartbeat \<Rightarrow> bool" where
  "sent_by_ping w h =
     (pulsetime h = timeout (settings w) + poll_time (settings w)
      \<and> duration (event h) = 0 \<and> queued h \<and> bucket_id h = bucketname w)"

section \<open>Steady runs\<close>

text \<open>The reading of a pass, where the probe returned one.\<close>

definition idle_seconds :: "tick \<Rightarrow> seconds" where
  "idle_seconds t = (case probe t of Seconds s \<Rightarrow> s | Raises e \<Rightarrow> 0)"

text \<open>
  A pass that leaves the state \<open>afk\<close> as it is: the parent is alive, the probe returns a
  reading, and the reading is on the side of the timeout that \<open>afk\<close> stands for.
\<close>

definition steady :: "system \<Rightarrow> AFKWatcher \<Rightarrow> bool \<Rightarrow> tick \<Rightarrow> bool" where
  "steady sys w afk t =
     (\<not> parent_died sys t
      \<and> (case probe t of Seconds s \<Rightarrow> afk = (timeout (settings w) \<le> s) | Raises e \<Rightarrow> False))"

text \<open>
  Pass \<open>t'\<close> comes after pass \<open>t\<close>: the sleep of \<open>t\<close> returns, the clock has not gone back, and
  the reading has grown by no more than the time that went by.
\<close>

definition follows :: "AFKWatcher \<Rightarrow> tick \<Rightarrow> tick \<Rightarrow> bool" where
  "follows w t t' =
     (snd (sleep_poll w t) = Continue
      \<and> now t \<le> now t'
      \<and> idle_seconds t' - idle_seconds t \<le> of_int (now t' - now t) / 1000000)"

fun steady_run :: "system \<Rightarrow> AFKWatcher \<Rightarrow> bool \<Rightarrow> tick list \<Rightarrow> bool" where
  "steady_run sys w afk [] = True"
| "steady_run sys w afk [t] = steady sys w afk t"
| "steady_run sys w afk (t # t' # ts) =
     (steady sys w afk t \<and> follows w t t' \<and> steady_run sys w afk (t' # ts))"

text \<open>The heartbeat of a pass without a transition.\<close>

definition pulse :: "AFKWatcher \<Rightarrow> bool \<Rightarrow> tick \<Rightarrow> heartbeat" where
  "pulse w afk t =
     (if afk then ping w True (now t) None
      else ping w False (now t - timedelta (idle_seconds t)) None)"

text \<open>A number that lies exactly half-way between two integers.\<close>

definition half_way :: "rat \<Rightarrow> bool" where
  "half_way x = (x - of_int \<lfloor>x\<rfloor> = 1 / 2)"

text \<open>Every reading of the passes is a whole number of microseconds.\<close>

definition whole_microseconds :: "tick list \<Rightarrow> bool" where
  "whole_microseconds ts =
     list_all (\<lambda>t. of_int \<lfloor>idle_seconds t * 1000000\<rfloor> = idle_seconds t * 1000000) ts"

section \<open>Rounding to microseconds\<close>

lemma round_half_even_upper: "of_int (round_half_even x) \<le> x + 1 / 2"
  unfolding round_half_even_def Let_def by (auto; linarith)

lemma round_half_even_lower: "x - 1 / 2 \<le> of_int (round_half_even x)"
  unfolding round_half_even_def Let_def by (auto; linarith)

lemma round_half_even_mono:
  assumes "x \<le> y"
  shows "round_half_even x \<le> round_half_even y"
proof (cases "\<lfloor>x\<rfloor> = \<lfloor>y\<rfloor>")
  case True
  then show ?thesis
    using assms unfolding round_half_even_def Let_def by auto
next
  case False
  then have lt: "\<lfloor>x\<rfloor> + 1 \<le> \<lfloor>y\<rfloor>"
    using floor_mono [OF assms] by linarith
  have a: "round_half_even x \<le> \<lfloor>x\<rfloor> + 1"
    unfolding round_half_even_def Let_def by auto
  have b: "\<lfloor>y\<rfloor> \<le> round_half_even y"
    unfolding round_half_even_def Let_def by auto
  from a b lt show ?thesis by linarith
qed

lemma round_half_even_shift:
  assumes "\<not> half_way x"
  shows "round_half_even (x + of_int d) = round_half_even x + d"
  using assms unfolding round_half_even_def half_way_def Let_def by auto

lemma whole_not_half_way:
  assumes "of_int \<lfloor>x\<rfloor> = x"
  shows "\<not> half_way x"
proof
  assume "half_way x"
  then have "x - of_int \<lfloor>x\<rfloor> = 1 / 2"
    by (simp only: half_way_def)
  with assms show False
    by linarith
qed

lemma round_half_even_zero: "round_half_even 0 = 0"
  by (simp add: round_half_even_def)

lemma round_half_even_half: "round_half_even (1 / 2) = 0"
  by code_simp

lemma round_half_even_pos: "(0 < round_half_even x) = (1 / 2 < x)"
proof
  assume "0 < round_half_even x"
  then show "1 / 2 < x"
    using round_half_even_mono [of x "1 / 2"] round_half_even_half
    by (cases "x \<le> 1 / 2") auto
next
  assume "1 / 2 < x"
  then have "(0::rat) < of_int (round_half_even x)"
    using round_half_even_lower [of x] by linarith
  then show "0 < round_half_even x" by simp
qed

lemma timedelta_pos: "(0 < timedelta s) = (1 / 2 < s * 1000000)"
  by (simp add: timedelta_def round_half_even_pos)

lemma timedelta_nonneg: "0 \<le> s \<Longrightarrow> 0 \<le> timedelta s"
  using round_half_even_mono [of 0 "s * 1000000"]
  by (simp add: timedelta_def round_half_even_zero)

text \<open>
  A reading that grows by no more than a whole number \<open>d\<close> of microseconds rounds to at
  most one microsecond more than \<open>d\<close> above the earlier rounding, and to no more than \<open>d\<close>
  above it when the earlier reading is not a tie.
\<close>

lemma timedelta_growth:
  assumes "y - x \<le> of_int d / 1000000"
  shows "timedelta y \<le> timedelta x + d + 1"
proof -
  have "of_int (timedelta y) \<le> y * 1000000 + 1 / 2"
    using round_half_even_upper [of "y * 1000000"] by (simp add: timedelta_def)
  moreover have "x * 1000000 - 1 / 2 \<le> of_int (timedelta x)"
    using round_half_even_lower [of "x * 1000000"] by (simp add: timedelta_def)
  moreover have "y * 1000000 \<le> x * 1000000 + of_int d"
    using assms by (simp add: field_simps)
  ultimately have "(of_int (timedelta y) :: rat) \<le> of_int (timedelta x + d + 1)"
    by simp
  then show ?thesis
    by (simp only: of_int_le_iff)
qed

lemma timedelta_growth_exact:
  assumes "y - x \<le> of_int d / 1000000" and "\<not> half_way (x * 1000000)"
  shows "timedelta y \<le> timedelta x + d"
proof -
  have "y * 1000000 \<le> x * 1000000 + of_int d"
    using assms(1) by (simp add: field_simps)
  then have "round_half_even (y * 1000000) \<le> round_half_even (x * 1000000 + of_int d)"
    by (rule round_half_even_mono)
  then show ?thesis
    using round_half_even_shift [OF assms(2), of d] by (simp add: timedelta_def)
qed

section \<open>One pass of the loop\<close>

lemma heartbeats_append: "heartbeats (xs @ ys) = heartbeats xs @ heartbeats ys"
  by (induction xs rule: heartbeats.induct) simp_all

lemma heartbeats_sleep_poll: "heartbeats (fst (sleep_poll w t)) = []"
  by (simp add: sleep_poll_def)

text \<open>A pass that reaches the probe and gets a reading sends the pings of \<open>state_change\<close>.\<close>

lemma cycle_probed:
  assumes "\<not> parent_died sys t" and "probe t = Seconds s"
  shows "heartbeats (fst (cycle sys w afk t)) = heartbeats (fst (state_change w afk (now t) s))"
    and "fst (snd (cycle sys w afk t)) = snd (state_change w afk (now t) s)"
    and "snd (snd (cycle sys w afk t)) = snd (sleep_poll w t)"
proof -
  obtain logs fl where sp: "sleep_poll w t = (logs, fl)"
    by (cases "sleep_poll w t")
  obtain pings a where sc: "state_change w afk (now t) s = (pings, a)"
    by (cases "state_change w afk (now t) s")
  have quiet: "heartbeats logs = []"
    using heartbeats_sleep_poll [of w t] sp by simp
  have c: "cycle sys w afk t = (Log (Debug_seconds s) # pings @ logs, a, fl)"
    using assms sp sc by (simp add: cycle_def)
  show "heartbeats (fst (cycle sys w afk t)) = heartbeats (fst (state_change w afk (now t) s))"
    using c sc quiet by (simp add: heartbeats_append)
  show "fst (snd (cycle sys w afk t)) = snd (state_change w afk (now t) s)"
    using c sc by simp
  show "snd (snd (cycle sys w afk t)) = snd (sleep_poll w t)"
    using c sp by simp
qed

lemma state_change_to_idle:
  assumes "\<not> afk" and "timeout (settings w) \<le> s"
  shows "state_change w afk n s
      = ([Log (Info ''Became AFK''), Heartbeat (ping w True (n - timedelta s) None),
          Heartbeat (ping w True n None)], True)"
  using assms by (simp add: state_change_def Let_def)

lemma state_change_to_active:
  assumes "afk" and "s < timeout (settings w)"
  shows "state_change w afk n s
      = ([Log (Info ''No longer AFK''), Heartbeat (ping w False (n - timedelta s) None),
          Heartbeat (ping w False (n - timedelta s + td1ms) None)], False)"
  using assms by (simp add: state_change_def Let_def)

lemma state_change_unchanged:
  assumes "afk = (timeout (settings w) \<le> s)"
  shows "state_change w afk n s
      = ([Heartbeat (if afk then ping w True n None
                     else ping w False (n - timedelta s) None)], afk)"
  using assms by (simp add: state_change_def Let_def)

text \<open>
  C1, as the code has it. A pass in the active state (\<open>afk\<close> false) whose reading is at least
  the timeout sends exactly two heartbeats, both with status \<open>afk\<close>: the first stamped
  \<open>last_input = now - timedelta(seconds=idle_seconds)\<close>, the second stamped \<open>now\<close>;
  afterwards \<open>afk\<close> is true. The second stamp is later than the first exactly when the
  reading is more than half a microsecond, so that it rounds to a microsecond at least; a
  timeout of one microsecond or more guarantees that. The second stamp is never earlier than
  the first for a reading that is not negative.
\<close>

theorem became_afk:
  assumes "\<not> parent_died sys t" and "probe t = Seconds s"
    and "\<not> afk" and "timeout (settings w) \<le> s"
  shows "heartbeats (fst (cycle sys w afk t))
           = [ping w True (now t - timedelta s) None, ping w True (now t) None]
         \<and> statuses (fst (cycle sys w afk t)) = [''afk'', ''afk'']
         \<and> stamps (fst (cycle sys w afk t)) = [now t - timedelta s, now t]
         \<and> (stamps (fst (cycle sys w afk t)) ! 0 < stamps (fst (cycle sys w afk t)) ! 1)
             = (1 / 2 < s * 1000000)
         \<and> (1 / 1000000 \<le> timeout (settings w) \<longrightarrow>
              stamps (fst (cycle sys w afk t)) ! 0 < stamps (fst (cycle sys w afk t)) ! 1)
         \<and> (0 \<le> s \<longrightarrow>
              stamps (fst (cycle sys w afk t)) ! 0 \<le> stamps (fst (cycle sys w afk t)) ! 1)
         \<and> fst (snd (cycle sys w afk t)) = True"
proof -
  note sc = state_change_to_idle [OF assms(3,4), of "now t"]
  have hs: "heartbeats (fst (cycle sys w afk t))
      = [ping w True (now t - timedelta s) None, ping w True (now t) None]"
    using cycle_probed(1) [OF assms(1,2)] sc by simp
  have st: "fst (snd (cycle sys w afk t)) = True"
    using cycle_probed(2) [OF assms(1,2)] sc by simp
  have sp: "stamps (fst (cycle sys w afk t)) = [now t - timedelta s, now t]"
    using hs by (simp add: stamps_def ping_def)
  have later: "(now t - timedelta s < now t) = (1 / 2 < s * 1000000)"
    using timedelta_pos [of s] by auto
  have enough: "1 / 1000000 \<le> timeout (settings w) \<longrightarrow> 1 / 2 < s * 1000000"
    using assms(4) by (auto simp: field_simps)
  have never: "0 \<le> s \<longrightarrow> now t - timedelta s \<le> now t"
    using timedelta_nonneg [of s] by auto
  have both: "statuses (fst (cycle sys w afk t)) = [''afk'', ''afk'']"
    using hs by (simp add: statuses_def ping_def status_of_def)
  show ?thesis
    using hs st sp later enough never both by simp
qed

theorem became_afk_witness:
  "\<not> parent_died Linux (tick_at 1000000000 60) \<and> probe (tick_at 1000000000 60) = Seconds 60
   \<and> timeout (settings scenario_watcher) \<le> 60
   \<and> statuses (fst (cycle Linux scenario_watcher False (tick_at 1000000000 60)))
       = [''afk'', ''afk'']
   \<and> stamps (fst (cycle Linux scenario_watcher False (tick_at 1000000000 60)))
       = [940000000, 1000000000]
   \<and> fst (snd (cycle Linux scenario_watcher False (tick_at 1000000000 60))) = True"
proof -
  have h1: "\<not> parent_died Linux (tick_at 1000000000 60)"
    by (simp add: parent_died_def tick_at_def)
  have h2: "probe (tick_at 1000000000 60) = Seconds 60"
    by (simp add: tick_at_def)
  have h3: "\<not> False" by simp
  have h4: "timeout (settings scenario_watcher) \<le> 60"
    by (simp add: scenario_watcher_def)
  have td: "timedelta 60 = 60000000"
    by code_simp
  show ?thesis
    using became_afk [OF h1 h2 h3 h4] h1 h2 h4 td by (simp add: tick_at_def)
qed

text \<open>
  C1 as stated fails where the configuration gives a timeout of zero (which \<open>Settings\<close>
  accepts with a poll time of zero) and the probe reads zero: the pass is in the active
  state with a reading that is not below the timeout, and both heartbeats carry the same
  instant.
\<close>

theorem zero_timeout_same_instant:
  "Settings_init [''timeout'' \<mapsto> 0, ''poll_time'' \<mapsto> 0] None None = Inr (settings zero_watcher)
   \<and> \<not> parent_died Linux (tick_at 1000000000 0) \<and> probe (tick_at 1000000000 0) = Seconds 0
   \<and> timeout (settings zero_watcher) \<le> 0
   \<and> stamps (fst (cycle Linux zero_watcher False (tick_at 1000000000 0)))
       = [1000000000, 1000000000]
   \<and> \<not> (stamps (fst (cycle Linux zero_watcher False (tick_at 1000000000 0))) ! 0
          < stamps (fst (cycle Linux zero_watcher False (tick_at 1000000000 0))) ! 1)"
proof -
  have td: "timedelta 0 = 0"
    by code_simp
  show ?thesis
    using td
    by (simp add: Settings_init_def arg_or_config_def getitem_def zero_watcher_def
        parent_died_def tick_at_def cycle_def state_change_def sleep_poll_def stamps_def
        ping_def)
qed

text \<open>
  C2. A pass in the idle state (\<open>afk\<close> true) whose reading is below the timeout sends exactly
  two heartbeats, both with status \<open>not-afk\<close>: the first stamped
  \<open>last_input = now - timedelta(seconds=idle_seconds)\<close>, the second one millisecond (1000
  microseconds) after it; afterwards \<open>afk\<close> is false.
\<close>

theorem no_longer_afk:
  assumes "\<not> parent_died sys t" and "probe t = Seconds s"
    and "afk" and "s < timeout (settings w)"
  shows "heartbeats (fst (cycle sys w afk t))
           = [ping w False (now t - timedelta s) None,
              ping w False (now t - timedelta s + td1ms) None]
         \<and> statuses (fst (cycle sys w afk t)) = [''not-afk'', ''not-afk'']
         \<and> stamps (fst (cycle sys w afk t)) = [now t - timedelta s, now t - timedelta s + 1000]
         \<and> fst (snd (cycle sys w afk t)) = False"
proof -
  note sc = state_change_to_active [OF assms(3,4), of "now t"]
  have hs: "heartbeats (fst (cycle sys w afk t))
      = [ping w False (now t - timedelta s) None,
         ping w False (now t - timedelta s + td1ms) None]"
    using cycle_probed(1) [OF assms(1,2)] sc by simp
  have st: "fst (snd (cycle sys w afk t)) = False"
    using cycle_probed(2) [OF assms(1,2)] sc by simp
  show ?thesis
    using hs st by (simp add: statuses_def stamps_def ping_def status_of_def td1ms_def)
qed

theorem no_longer_afk_witness:
  "\<not> parent_died Linux (tick_at 1005000000 2) \<and> probe (tick_at 1005000000 2) = Seconds 2
   \<and> 2 < timeout (settings scenario_watcher)
   \<and> statuses (fst (cycle Linux scenario_watcher True (tick_at 1005000000 2)))
       = [''not-afk'', ''not-afk'']
   \<and> stamps (fst (cycle Linux scenario_watcher True (tick_at 1005000000 2)))
       = [1003000000, 1003001000]
   \<and> fst (snd (cycle Linux scenario_watcher True (tick_at 1005000000 2))) = False"
proof -
  have h1: "\<not> parent_died Linux (tick_at 1005000000 2)"
    by (simp add: parent_died_def tick_at_def)
  have h2: "probe (tick_at 1005000000 2) = Seconds 2"
    by (simp add: tick_at_def)
  have h3: "True" by simp
  have h4: "2 < timeout (settings scenario_watcher)"
    by (simp add: scenario_watcher_def)
  have td: "timedelta 2 = 2000000"
    by code_simp
  show ?thesis
    using no_longer_afk [OF h1 h2 h3 h4] h1 h2 h4 td by (simp add: tick_at_def)
qed

text \<open>
  C5. A pass without a transition (active with a reading below the timeout, or idle with a
  reading of at least the timeout) sends exactly one heartbeat with the status of the
  current state: \<open>not-afk\<close> stamped \<open>last_input = now - timedelta(seconds=idle_seconds)\<close>
  when active, \<open>afk\<close> stamped \<open>now\<close> when idle; \<open>afk\<close> keeps its value.
\<close>

theorem steady_pulse:
  assumes "\<not> parent_died sys t" and "probe t = Seconds s"
    and "afk = (timeout (settings w) \<le> s)"
  shows "heartbeats (fst (cycle sys w afk t))
           = [if afk then ping w True (now t) None
              else ping w False (now t - timedelta s) None]
         \<and> statuses (fst (cycle sys w afk t)) = [if afk then ''afk'' else ''not-afk'']
         \<and> stamps (fst (cycle sys w afk t)) = [if afk then now t else now t - timedelta s]
         \<and> fst (snd (cycle sys w afk t)) = afk"
proof -
  note sc = state_change_unchanged [OF assms(3), of "now t"]
  have hs: "heartbeats (fst (cycle sys w afk t))
      = [if afk then ping w True (now t) None else ping w False (now t - timedelta s) None]"
    using cycle_probed(1) [OF assms(1,2)] sc by simp
  have st: "fst (snd (cycle sys w afk t)) = afk"
    using cycle_probed(2) [OF assms(1,2)] sc by simp
  show ?thesis
    using hs st by (simp add: statuses_def stamps_def ping_def status_of_def)
qed

theorem steady_pulse_witness:
  "\<not> parent_died Linux (tick_at 1000000000 55) \<and> probe (tick_at 1000000000 55) = Seconds 55
   \<and> False = (timeout (settings scenario_watcher) \<le> 55)
   \<and> statuses (fst (cycle Linux scenario_watcher False (tick_at 1000000000 55))) = [''not-afk'']
   \<and> stamps (fst (cycle Linux scenario_watcher False (tick_at 1000000000 55))) = [945000000]
   \<and> fst (snd (cycle Linux scenario_watcher False (tick_at 1000000000 55))) = False"
proof -
  have h1: "\<not> parent_died Linux (tick_at 1000000000 55)"
    by (simp add: parent_died_def tick_at_def)
  have h2: "probe (tick_at 1000000000 55) = Seconds 55"
    by (simp add: tick_at_def)
  have h3: "False = (timeout (settings scenario_watcher) \<le> 55)"
    by (simp add: scenario_watcher_def)
  have td: "timedelta 55 = 55000000"
    by code_simp
  show ?thesis
    using steady_pulse [OF h1 h2 h3] h1 h2 h3 td by (simp add: tick_at_def)
qed

text \<open>
  C7, as the code has it. On a transition in either direction there are exactly two
  heartbeats and both carry the status of the new state. The first is stamped at
  \<open>last_input = now - timedelta(seconds=idle_seconds)\<close>; the second is stamped one
  millisecond after \<open>last_input\<close> when the state becomes active, and at \<open>now\<close> when it
  becomes idle. Afterwards \<open>afk\<close> has flipped.
\<close>

theorem transition_new_status_twice:
  assumes "\<not> parent_died sys t" and "probe t = Seconds s"
    and "afk = (s < timeout (settings w))"
  shows "heartbeats (fst (cycle sys w afk t))
           = [ping w (\<not> afk) (now t - timedelta s) None,
              ping w (\<not> afk) (if afk then now t - timedelta s + td1ms else now t) None]
         \<and> statuses (fst (cycle sys w afk t)) = [status_of (\<not> afk), status_of (\<not> afk)]
         \<and> stamps (fst (cycle sys w afk t))
             = [now t - timedelta s, if afk then now t - timedelta s + 1000 else now t]
         \<and> fst (snd (cycle sys w afk t)) = (\<not> afk)"
proof (cases afk)
  case True
  then have below: "s < timeout (settings w)"
    using assms(3) by simp
  note sc = state_change_to_active [OF True below, of "now t"]
  show ?thesis
    using cycle_probed(1,2) [OF assms(1,2), of w afk] sc True
    by (simp add: statuses_def stamps_def ping_def td1ms_def)
next
  case False
  then have above: "timeout (settings w) \<le> s"
    using assms(3) by simp
  note sc = state_change_to_idle [OF False above, of "now t"]
  show ?thesis
    using cycle_probed(1,2) [OF assms(1,2), of w afk] sc False
    by (simp add: statuses_def stamps_def ping_def)
qed

theorem transition_new_status_twice_witness:
  "\<not> parent_died Darwin (tick_at 2000000000 3) \<and> probe (tick_at 2000000000 3) = Seconds 3
   \<and> True = (3 < timeout (settings scenario_watcher))
   \<and> statuses (fst (cycle Darwin scenario_watcher True (tick_at 2000000000 3)))
       = [''not-afk'', ''not-afk'']
   \<and> stamps (fst (cycle Darwin scenario_watcher True (tick_at 2000000000 3)))
       = [1997000000, 1997001000]
   \<and> fst (snd (cycle Darwin scenario_watcher True (tick_at 2000000000 3))) = False"
proof -
  have h1: "\<not> parent_died Darwin (tick_at 2000000000 3)"
    by (simp add: parent_died_def tick_at_def)
  have h2: "probe (tick_at 2000000000 3) = Seconds 3"
    by (simp add: tick_at_def)
  have h3: "True = (3 < timeout (settings scenario_watcher))"
    by (simp add: scenario_watcher_def)
  have td: "timedelta 3 = 3000000"
    by code_simp
  show ?thesis
    using transition_new_status_twice [OF h1 h2 h3] h1 h2 h3 td
    by (simp add: tick_at_def status_of_def)
qed

text \<open>
  C7 as stated fails on the way back from idle: in the scenario, idle with a reading of 2 s,
  the state flips to active and the first heartbeat already says \<open>not-afk\<close>, which is not the
  status of the state that is left.
\<close>

theorem first_heartbeat_not_old_status:
  "\<not> parent_died Darwin (tick_at 3000000000 2) \<and> probe (tick_at 3000000000 2) = Seconds 2
   \<and> 2 < timeout (settings scenario_watcher)
   \<and> fst (snd (cycle Darwin scenario_watcher True (tick_at 3000000000 2))) = False
   \<and> statuses (fst (cycle Darwin scenario_watcher True (tick_at 3000000000 2))) ! 0 = ''not-afk''
   \<and> status_of True = ''afk''
   \<and> statuses (fst (cycle Darwin scenario_watcher True (tick_at 3000000000 2))) ! 0
       \<noteq> status_of True"
  by (simp add: scenario_watcher_def parent_died_def tick_at_def cycle_def state_change_def
      sleep_poll_def statuses_def ping_def status_of_def Let_def)

section \<open>Every heartbeat of the loop\<close>

lemma sent_by_ping_ping: "sent_by_ping w (ping w a i None)"
  by (simp add: sent_by_ping_def ping_def)

lemma state_change_sent_by_ping:
  "list_all (sent_by_ping w) (heartbeats (fst (state_change w afk n s)))"
  by (simp add: state_change_def Let_def sent_by_ping_ping)

lemma cycle_sent_by_ping:
  "list_all (sent_by_ping w) (heartbeats (fst (cycle sys w afk t)))"
proof (cases "parent_died sys t")
  case True
  then show ?thesis by (simp add: cycle_def)
next
  case False
  show ?thesis
  proof (cases "probe t")
    case (Seconds s)
    show ?thesis
      using cycle_probed(1) [OF False Seconds, of w afk] state_change_sent_by_ping [of w afk "now t" s]
      by simp
  next
    case (Raises e)
    then show ?thesis using False by (simp add: cycle_def)
  qed
qed

lemma loop_sent_by_ping:
  "list_all (sent_by_ping w) (heartbeats (fst (heartbeat_loop_from sys w afk ts)))"
proof (induction ts arbitrary: afk)
  case Nil
  show ?case by simp
next
  case (Cons t ts)
  obtain out a fl where c: "cycle sys w afk t = (out, a, fl)"
    by (cases "cycle sys w afk t")
  have first: "list_all (sent_by_ping w) (heartbeats out)"
    using cycle_sent_by_ping [of w sys afk t] c by simp
  show ?case
  proof (cases fl)
    case Break
    then show ?thesis using c first by simp
  next
    case Continue
    obtain rest r where l: "heartbeat_loop_from sys w a ts = (rest, r)"
      by (cases "heartbeat_loop_from sys w a ts")
    have "list_all (sent_by_ping w) (heartbeats rest)"
      using Cons.IH [of a] l by simp
    then show ?thesis
      using c Continue l first by (simp add: heartbeats_append)
  qed
qed

text \<open>
  C6. Every heartbeat the loop sends, from either state, on every pass and branch, goes to
  the event store with \<open>pulsetime = timeout + poll_time\<close> and a duration of 0; \<open>run\<close> sends
  no other heartbeat. \<open>ping\<close> computes that pulse time whatever its arguments, and the
  duration is 0 when the caller leaves it out.
\<close>

theorem every_heartbeat_pulsetime:
  "(\<forall>h \<in> set (heartbeats (fst (heartbeat_loop_from sys w afk ts))).
      pulsetime h = timeout (settings w) + poll_time (settings w) \<and> duration (event h) = 0)
   \<and> heartbeats (run sys w ts) = heartbeats (fst (heartbeat_loop_from sys w False ts))
   \<and> pulsetime (ping w a i d) = timeout (settings w) + poll_time (settings w)
   \<and> duration (event (ping w a i None)) = 0"
  using loop_sent_by_ping [of w sys afk ts]
  by (simp add: list_all_iff sent_by_ping_def run_def heartbeat_loop_def ping_def)

theorem every_heartbeat_pulsetime_witness:
  "heartbeats (fst (heartbeat_loop_from Linux scenario_watcher False
      [tick_at 1000000000 55, tick_at 1005000000 60]))
     = [ping scenario_watcher False 945000000 None, ping scenario_watcher True 945000000 None,
        ping scenario_watcher True 1005000000 None]
   \<and> pulsetime (ping scenario_watcher True 1005000000 None) = 65
   \<and> duration (event (ping scenario_watcher True 1005000000 None)) = 0"
proof -
  have td: "timedelta 55 = 55000000" "timedelta 60 = 60000000"
    by code_simp+
  have run: "heartbeats (fst (heartbeat_loop_from Linux scenario_watcher False
               [tick_at 1000000000 55, tick_at 1005000000 60]))
     = [ping scenario_watcher False 945000000 None, ping scenario_watcher True 945000000 None,
        ping scenario_watcher True 1005000000 None]"
    using td
    by (simp add: cycle_def parent_died_def tick_at_def state_change_def sleep_poll_def
        scenario_watcher_def Let_def)
  have "\<forall>h \<in> set (heartbeats (fst (heartbeat_loop_from Linux scenario_watcher False
               [tick_at 1000000000 55, tick_at 1005000000 60]))).
      pulsetime h = timeout (settings scenario_watcher) + poll_time (settings scenario_watcher)
      \<and> duration (event h) = 0"
    using every_heartbeat_pulsetime [of Linux scenario_watcher False
        "[tick_at 1000000000 55, tick_at 1005000000 60]"]
    by blast
  then show ?thesis
    using run by (simp add: scenario_watcher_def)
qed

section \<open>What the constructor of the settings accepts\<close>

lemma arg_or_config_falsy:
  "arg_or_config (Some 0) c k = getitem c k" "arg_or_config None c k = getitem c k"
  by (simp_all add: arg_or_config_def)

text \<open>
  C4. Every \<open>Settings\<close> that the constructor returns has \<open>timeout >= poll_time\<close>. Whatever
  the arguments and the configuration, when the timeout they select is below the poll time
  they select, the constructor raises its assertion; so does the constructor of the watcher,
  and there is no watcher whose loop could begin.
\<close>

theorem Settings_init_invariant:
  "(Settings_init c ta pa = Inr s \<longrightarrow> poll_time s \<le> timeout s)
   \<and> (arg_or_config ta c ''timeout'' = Inr tv \<and> arg_or_config pa c ''poll_time'' = Inr pv
        \<and> tv < pv \<longrightarrow>
      Settings_init c ta pa
        = Inl (AssertionError ''Timeout must be greater than or equal to poll_time'')
      \<and> AFKWatcher_init c name \<lparr>arg_timeout = ta, arg_poll_time = pa\<rparr>
        = Inl (AssertionError ''Timeout must be greater than or equal to poll_time''))
   \<and> (tv \<noteq> 0 \<and> pv \<noteq> 0 \<and> tv < pv \<longrightarrow>
      Settings_init c (Some tv) (Some pv)
        = Inl (AssertionError ''Timeout must be greater than or equal to poll_time''))"
proof -
  have inv: "Settings_init c ta pa = Inr s \<longrightarrow> poll_time s \<le> timeout s"
    by (auto simp: Settings_init_def split: sum.splits if_splits)
  have rej: "arg_or_config ta c ''timeout'' = Inr tv \<and> arg_or_config pa c ''poll_time'' = Inr pv
        \<and> tv < pv \<longrightarrow>
      Settings_init c ta pa
        = Inl (AssertionError ''Timeout must be greater than or equal to poll_time'')"
    by (simp add: Settings_init_def)
  from rej have "arg_or_config ta c ''timeout'' = Inr tv \<and> arg_or_config pa c ''poll_time'' = Inr pv
        \<and> tv < pv \<longrightarrow>
      AFKWatcher_init c name \<lparr>arg_timeout = ta, arg_poll_time = pa\<rparr>
        = Inl (AssertionError ''Timeout must be greater than or equal to poll_time'')"
    by (simp add: AFKWatcher_init_def)
  moreover have "tv \<noteq> 0 \<and> pv \<noteq> 0 \<and> tv < pv \<longrightarrow>
      Settings_init c (Some tv) (Some pv)
        = Inl (AssertionError ''Timeout must be greater than or equal to poll_time'')"
    by (simp add: Settings_init_def arg_or_config_def)
  ultimately show ?thesis
    using inv rej by blast
qed

theorem Settings_init_invariant_witness:
  "Settings_init sample_config None None = Inr \<lparr>timeout = 180, poll_time = 5\<rparr>
   \<and> poll_time \<lparr>timeout = 180, poll_time = 5\<rparr> \<le> timeout \<lparr>timeout = 180, poll_time = 5\<rparr>
   \<and> arg_or_config (Some 3) sample_config ''timeout'' = Inr 3
   \<and> arg_or_config None sample_config ''poll_time'' = Inr 5
   \<and> Settings_init sample_config (Some 3) None
       = Inl (AssertionError ''Timeout must be greater than or equal to poll_time'')
   \<and> AFKWatcher_init sample_config ''sd-watcher-afk'' \<lparr>arg_timeout = Some 3, arg_poll_time = None\<rparr>
       = Inl (AssertionError ''Timeout must be greater than or equal to poll_time'')"
proof -
  have ok: "Settings_init sample_config None None = Inr \<lparr>timeout = 180, poll_time = 5\<rparr>"
    by (simp add: Settings_init_def arg_or_config_def getitem_def sample_config_def)
  have t: "arg_or_config (Some 3) sample_config ''timeout'' = Inr 3"
    by (simp add: arg_or_config_def)
  have p: "arg_or_config None sample_config ''poll_time'' = Inr 5"
    by (simp add: arg_or_config_def getitem_def sample_config_def)
  have lt: "(3::rat) < 5" by simp
  show ?thesis
    using Settings_init_invariant [where c = sample_config and ta = None and pa = None
        and s = "\<lparr>timeout = 180, poll_time = 5\<rparr>"]
      Settings_init_invariant [where c = sample_config and ta = "Some 3" and pa = None
        and tv = 3 and pv = 5 and name = "''sd-watcher-afk''"]
      ok t p lt
    by simp
qed

text \<open>
  C10. An explicit \<open>timeout\<close> or \<open>poll_time\<close> argument of 0 is treated as an absent one: the
  constructor does what it does for \<open>None\<close>, and the setting it stores is the value of the
  configuration section. A non-zero argument is stored as the setting.
\<close>

theorem falsy_argument_replaced:
  "Settings_init c (Some 0) pa = Settings_init c None pa
   \<and> Settings_init c ta (Some 0) = Settings_init c ta None
   \<and> (Settings_init c (Some 0) pa = Inr s \<longrightarrow> c ''timeout'' = Some (timeout s))
   \<and> (Settings_init c ta (Some 0) = Inr s \<longrightarrow> c ''poll_time'' = Some (poll_time s))
   \<and> (v \<noteq> 0 \<and> Settings_init c (Some v) pa = Inr s \<longrightarrow> timeout s = v)
   \<and> (v \<noteq> 0 \<and> Settings_init c ta (Some v) = Inr s \<longrightarrow> poll_time s = v)"
proof -
  have a: "Settings_init c (Some 0) pa = Settings_init c None pa"
    by (simp add: Settings_init_def arg_or_config_falsy)
  have b: "Settings_init c ta (Some 0) = Settings_init c ta None"
    by (simp add: Settings_init_def arg_or_config_falsy split: sum.splits)
  have d: "Settings_init c (Some 0) pa = Inr s \<longrightarrow> c ''timeout'' = Some (timeout s)"
    by (auto simp: Settings_init_def arg_or_config_falsy getitem_def
        split: sum.splits option.splits if_splits)
  have e: "Settings_init c ta (Some 0) = Inr s \<longrightarrow> c ''poll_time'' = Some (poll_time s)"
    by (auto simp: Settings_init_def arg_or_config_falsy getitem_def
        split: sum.splits option.splits if_splits)
  have f: "v \<noteq> 0 \<and> Settings_init c (Some v) pa = Inr s \<longrightarrow> timeout s = v"
    by (auto simp: Settings_init_def arg_or_config_def split: sum.splits if_splits)
  have g: "v \<noteq> 0 \<and> Settings_init c ta (Some v) = Inr s \<longrightarrow> poll_time s = v"
    by (auto simp: Settings_init_def arg_or_config_def split: sum.splits if_splits)
  from a b d e f g show ?thesis by blast
qed

theorem falsy_argument_replaced_witness:
  "Settings_init sample_config (Some 0) (Some 0) = Inr \<lparr>timeout = 180, poll_time = 5\<rparr>
   \<and> sample_config ''timeout'' = Some 180 \<and> sample_config ''poll_time'' = Some 5
   \<and> Settings_init sample_config (Some 30) (Some 0) = Inr \<lparr>timeout = 30, poll_time = 5\<rparr>"
proof -
  have z: "Settings_init sample_config (Some 0) (Some 0) = Inr \<lparr>timeout = 180, poll_time = 5\<rparr>"
    by (simp add: Settings_init_def arg_or_config_def getitem_def sample_config_def)
  have n: "Settings_init sample_config (Some 30) (Some 0) = Inr \<lparr>timeout = 30, poll_time = 5\<rparr>"
    by (simp add: Settings_init_def arg_or_config_def getitem_def sample_config_def)
  show ?thesis
    using falsy_argument_replaced [where c = sample_config and pa = "Some 0" and ta = "Some 0"
        and s = "\<lparr>timeout = 180, poll_time = 5\<rparr>"] z n
    by simp
qed

section \<open>A probe that fails\<close>

text \<open>A probe that raises ends the loop in that pass, with an error logged and no heartbeat.\<close>

lemma probe_raises_stops_loop:
  assumes "\<not> parent_died sys t" and "probe t = Raises e"
  shows "heartbeat_loop_from sys w afk (t # ts)
           = ([Log (Error (''Unexpected error occurred: '' @ e))], afk, Break)"
  using assms by (simp add: cycle_def)

text \<open>
  C3 at the sentinel of the macOS probe. When the Quartz call raises, the probe prints a
  line and returns -1. The loop takes -1 as a reading: in the active state it sends a
  \<open>not-afk\<close> heartbeat stamped one second after \<open>now\<close>, in the idle state it logs
  \<open>No longer AFK\<close>, sends two \<open>not-afk\<close> heartbeats and becomes active; either way it goes
  on to the next pass.
\<close>

theorem negative_sentinel_taken_as_reading:
  "seconds_since_last_input (Raises ''no event source'')
     = ([''Error retrieving input event time: no event source''], Seconds (- 1))
   \<and> cycle Darwin scenario_watcher False
       \<lparr>ppid = 4242, now = 1000000000,
        probe = snd (seconds_since_last_input (Raises ''no event source'')), interrupt = False\<rparr>
     = ([Log (Debug_seconds (- 1)), Heartbeat (ping scenario_watcher False 1001000000 None)],
        False, Continue)
   \<and> cycle Darwin scenario_watcher True
       \<lparr>ppid = 4242, now = 1000000000,
        probe = snd (seconds_since_last_input (Raises ''no event source'')), interrupt = False\<rparr>
     = ([Log (Debug_seconds (- 1)), Log (Info ''No longer AFK''),
         Heartbeat (ping scenario_watcher False 1001000000 None),
         Heartbeat (ping scenario_watcher False 1001001000 None)],
        False, Continue)"
proof -
  have td: "timedelta (- 1) = - 1000000"
    by code_simp
  show ?thesis
    using td
    by (simp add: seconds_since_last_input_def cycle_def parent_died_def state_change_def
        sleep_poll_def scenario_watcher_def Let_def td1ms_def)
qed

section \<open>The start of a run\<close>

text \<open>
  C9. A run starts in the active state: before any pass \<open>afk\<close> is false, the output of a
  run begins with what its first pass emits from the active state, and \<open>run\<close> enters the
  loop with \<open>afk\<close> false. The loop takes the watcher and its environment only: there is no
  earlier state for it to read.
\<close>

theorem loop_starts_active:
  "heartbeat_loop sys w [] = ([], False, Continue)
   \<and> take (length (fst (cycle sys w False t))) (fst (heartbeat_loop sys w (t # ts)))
       = fst (cycle sys w False t)
   \<and> run sys w ts
       = Log (Info ''sd-watcher-afk started'') # Create_bucket (bucketname w) ''afkstatus'' True
         # fst (heartbeat_loop_from sys w False ts)"
proof -
  obtain out a fl where c: "cycle sys w False t = (out, a, fl)"
    by (cases "cycle sys w False t")
  obtain rest r where l: "heartbeat_loop_from sys w a ts = (rest, r)"
    by (cases "heartbeat_loop_from sys w a ts")
  have "take (length out) (fst (heartbeat_loop_from sys w False (t # ts))) = out"
    using c l by (cases fl) simp_all
  then show ?thesis
    using c by (simp add: heartbeat_loop_def run_def)
qed

section \<open>Steady state\<close>

lemma loop_Cons:
  assumes "cycle sys w afk t = (out, a, fl)"
  shows "heartbeats (fst (heartbeat_loop_from sys w afk (t # ts)))
           = heartbeats out
             @ (case fl of Break \<Rightarrow> [] | Continue \<Rightarrow> heartbeats (fst (heartbeat_loop_from sys w a ts)))"
    and "fst (snd (heartbeat_loop_from sys w afk (t # ts)))
           = (case fl of Break \<Rightarrow> a | Continue \<Rightarrow> fst (snd (heartbeat_loop_from sys w a ts)))"
proof -
  obtain rest r where l: "heartbeat_loop_from sys w a ts = (rest, r)"
    by (cases "heartbeat_loop_from sys w a ts")
  show "heartbeats (fst (heartbeat_loop_from sys w afk (t # ts)))
           = heartbeats out
             @ (case fl of Break \<Rightarrow> [] | Continue \<Rightarrow> heartbeats (fst (heartbeat_loop_from sys w a ts)))"
    using assms l by (cases fl) (simp_all add: heartbeats_append)
  show "fst (snd (heartbeat_loop_from sys w afk (t # ts)))
           = (case fl of Break \<Rightarrow> a | Continue \<Rightarrow> fst (snd (heartbeat_loop_from sys w a ts)))"
    using assms l by (cases fl) simp_all
qed

lemma steady_cycle:
  assumes "steady sys w afk t"
  shows "heartbeats (fst (cycle sys w afk t)) = [pulse w afk t]"
    and "fst (snd (cycle sys w afk t)) = afk"
    and "snd (snd (cycle sys w afk t)) = snd (sleep_poll w t)"
proof -
  from assms obtain s where alive: "\<not> parent_died sys t" and rd: "probe t = Seconds s"
    and side: "afk = (timeout (settings w) \<le> s)"
    by (auto simp: steady_def split: reading.splits)
  note sc = state_change_unchanged [OF side, of "now t"]
  show "heartbeats (fst (cycle sys w afk t)) = [pulse w afk t]"
    using cycle_probed(1) [OF alive rd, of w afk] sc rd
    by (simp add: pulse_def idle_seconds_def)
  show "fst (snd (cycle sys w afk t)) = afk"
    using cycle_probed(2) [OF alive rd, of w afk] sc by simp
  show "snd (snd (cycle sys w afk t)) = snd (sleep_poll w t)"
    using cycle_probed(3) [OF alive rd] .
qed

lemma steady_run_pulses:
  "steady_run sys w afk ts \<Longrightarrow>
     heartbeats (fst (heartbeat_loop_from sys w afk ts)) = map (pulse w afk) ts
     \<and> fst (snd (heartbeat_loop_from sys w afk ts)) = afk"
proof (induction sys w afk ts rule: steady_run.induct)
  case (1 sys w afk)
  show ?case by simp
next
  case (2 sys w afk t)
  then have st: "steady sys w afk t" by simp
  obtain out a fl where c: "cycle sys w afk t = (out, a, fl)"
    by (cases "cycle sys w afk t")
  show ?case
    using loop_Cons [OF c, of "[]"] steady_cycle(1,2) [OF st] c
    by (cases fl) simp_all
next
  case (3 sys w afk t t' ts)
  then have st: "steady sys w afk t" and fo: "follows w t t'"
    and rest: "steady_run sys w afk (t' # ts)"
    by simp_all
  obtain out a fl where c: "cycle sys w afk t = (out, a, fl)"
    by (cases "cycle sys w afk t")
  have fl: "fl = Continue"
    using steady_cycle(3) [OF st] fo c by (simp add: follows_def)
  have a: "a = afk"
    using steady_cycle(2) [OF st] c by simp
  show ?case
    using loop_Cons [OF c, of "t' # ts"] steady_cycle(1) [OF st] c fl a "3.IH" [OF rest]
    by simp
qed

lemma follows_within_microsecond:
  assumes "follows w t t'"
  shows "timestamp (event (pulse w afk t)) - 1 \<le> timestamp (event (pulse w afk t'))"
proof (cases afk)
  case True
  then show ?thesis
    using assms by (simp add: follows_def pulse_def ping_def)
next
  case False
  have "timedelta (idle_seconds t') \<le> timedelta (idle_seconds t) + (now t' - now t) + 1"
    using assms by (intro timedelta_growth) (simp add: follows_def)
  then show ?thesis
    using False by (simp add: pulse_def ping_def)
qed

lemma follows_in_order:
  assumes "follows w t t'" and "afk \<or> \<not> half_way (idle_seconds t * 1000000)"
  shows "timestamp (event (pulse w afk t)) \<le> timestamp (event (pulse w afk t'))"
proof (cases afk)
  case True
  then show ?thesis
    using assms(1) by (simp add: follows_def pulse_def ping_def)
next
  case False
  then have "\<not> half_way (idle_seconds t * 1000000)"
    using assms(2) by simp
  then have "timedelta (idle_seconds t') \<le> timedelta (idle_seconds t) + (now t' - now t)"
    using assms(1) by (intro timedelta_growth_exact) (simp_all add: follows_def)
  then show ?thesis
    using False by (simp add: pulse_def ping_def)
qed

lemma steady_run_within_microsecond:
  "steady_run sys w afk ts \<Longrightarrow>
     successively
       (\<lambda>t t'. timestamp (event (pulse w afk t)) - 1 \<le> timestamp (event (pulse w afk t'))) ts"
proof (induction sys w afk ts rule: steady_run.induct)
  case (3 sys w afk t t' ts)
  then have fo: "follows w t t'" and rest: "steady_run sys w afk (t' # ts)"
    by simp_all
  show ?case
    using follows_within_microsecond [OF fo] "3.IH" [OF rest] by simp
qed simp_all

lemma steady_run_in_order:
  "steady_run sys w afk ts \<Longrightarrow> afk \<or> whole_microseconds ts \<Longrightarrow>
     successively
       (\<lambda>t t'. timestamp (event (pulse w afk t)) \<le> timestamp (event (pulse w afk t'))) ts"
proof (induction sys w afk ts rule: steady_run.induct)
  case (3 sys w afk t t' ts)
  then have fo: "follows w t t'" and rest: "steady_run sys w afk (t' # ts)"
    by simp_all
  have here: "afk \<or> \<not> half_way (idle_seconds t * 1000000)"
    using "3.prems"(2) whole_not_half_way [of "idle_seconds t * 1000000"]
    by (auto simp: whole_microseconds_def)
  have later: "afk \<or> whole_microseconds (t' # ts)"
    using "3.prems"(2) by (auto simp: whole_microseconds_def)
  show ?case
    using follows_in_order [OF fo here] "3.IH" [OF rest later] by simp
qed simp_all

text \<open>
  C8, as the code has it. Any number N of consecutive passes without a transition (each
  reading on the side of the timeout that the state stands for), where from one pass to the
  next the clock does not go back and the reading grows by no more than the time gone by,
  sends exactly N heartbeats, all with the status of the state, and leaves the state
  unchanged. A timestamp is never more than one microsecond earlier than the one before
  it. The timestamps never decrease when the state is idle, and when it is active and
  every reading is a whole number of microseconds.
\<close>

theorem steady_state_pulses:
  assumes "steady_run sys w afk ts"
  shows "length (heartbeats (fst (heartbeat_loop_from sys w afk ts))) = length ts
         \<and> statuses (fst (heartbeat_loop_from sys w afk ts)) = replicate (length ts) (status_of afk)
         \<and> successively (\<lambda>a b. a - 1 \<le> b) (stamps (fst (heartbeat_loop_from sys w afk ts)))
         \<and> (afk \<or> whole_microseconds ts \<longrightarrow>
              sorted (stamps (fst (heartbeat_loop_from sys w afk ts))))
         \<and> fst (snd (heartbeat_loop_from sys w afk ts)) = afk"
proof -
  from steady_run_pulses [OF assms]
  have hs: "heartbeats (fst (heartbeat_loop_from sys w afk ts)) = map (pulse w afk) ts"
    and st: "fst (snd (heartbeat_loop_from sys w afk ts)) = afk"
    by simp_all
  have sp: "stamps (fst (heartbeat_loop_from sys w afk ts))
      = map (\<lambda>t. timestamp (event (pulse w afk t))) ts"
    using hs by (simp add: stamps_def comp_def)
  have same: "map (\<lambda>h. status (data (event h))) (map (pulse w afk) ts)
      = replicate (length ts) (status_of afk)"
    by (induction ts) (simp_all add: pulse_def ping_def status_of_def)
  have near: "successively (\<lambda>a b. a - 1 \<le> b)
      (stamps (fst (heartbeat_loop_from sys w afk ts)))"
    using steady_run_within_microsecond [OF assms] sp by (simp add: successively_map)
  have ordered: "sorted (stamps (fst (heartbeat_loop_from sys w afk ts)))"
    if "afk \<or> whole_microseconds ts"
  proof -
    have "successively (\<le>) (map (\<lambda>t. timestamp (event (pulse w afk t))) ts)"
      using steady_run_in_order [OF assms that] by (simp add: successively_map)
    then have "sorted (map (\<lambda>t. timestamp (event (pulse w afk t))) ts)"
      by (simp add: successively_conv_sorted_wrt)
    then show ?thesis
      using sp by simp
  qed
  show ?thesis
    using hs st same near ordered by (simp add: statuses_def)
qed

theorem steady_state_pulses_witness:
  "steady_run Linux scenario_watcher False
     [tick_at 1000000000 0, tick_at 1005000000 5, tick_at 1010000000 3]
   \<and> whole_microseconds [tick_at 1000000000 0, tick_at 1005000000 5, tick_at 1010000000 3]
   \<and> statuses (fst (heartbeat_loop_from Linux scenario_watcher False
        [tick_at 1000000000 0, tick_at 1005000000 5, tick_at 1010000000 3]))
       = [''not-afk'', ''not-afk'', ''not-afk'']
   \<and> stamps (fst (heartbeat_loop_from Linux scenario_watcher False
        [tick_at 1000000000 0, tick_at 1005000000 5, tick_at 1010000000 3]))
       = [1000000000, 1000000000, 1007000000]
   \<and> sorted (stamps (fst (heartbeat_loop_from Linux scenario_watcher False
        [tick_at 1000000000 0, tick_at 1005000000 5, tick_at 1010000000 3])))"
proof -
  have td: "timedelta 0 = 0" "timedelta 5 = 5000000" "timedelta 3 = 3000000"
    by code_simp+
  have h: "steady_run Linux scenario_watcher False
      [tick_at 1000000000 0, tick_at 1005000000 5, tick_at 1010000000 3]"
    by (simp add: steady_def follows_def parent_died_def tick_at_def scenario_watcher_def
        sleep_poll_def idle_seconds_def)
  have e: "whole_microseconds
      [tick_at 1000000000 0, tick_at 1005000000 5, tick_at 1010000000 3]"
    by (simp add: whole_microseconds_def tick_at_def idle_seconds_def)
  have v: "stamps (fst (heartbeat_loop_from Linux scenario_watcher False
        [tick_at 1000000000 0, tick_at 1005000000 5, tick_at 1010000000 3]))
      = [1000000000, 1000000000, 1007000000]"
    using td
    by (simp add: cycle_def parent_died_def tick_at_def state_change_def sleep_poll_def
        scenario_watcher_def Let_def stamps_def ping_def)
  show ?thesis
    using steady_state_pulses [OF h] h e v by (simp add: status_of_def)
qed

text \<open>
  C8 as stated fails in the active state on a tie. In the scenario, a reading of
  10 + 1/128 s is followed, 5.015625 s later, by a reading of 15 + 3/128 s: the reading has
  grown by exactly the time gone by and the clock has not gone back. The first reading is
  10007812.5 microseconds and rounds down to the even 10007812, the second is 15023437.5
  and rounds up to the even 15023438, so the second heartbeat is stamped one microsecond
  before the first.
\<close>

theorem tie_stamps_step_back:
  "steady_run Linux scenario_watcher False
     [tick_at 1000000000 (10 + 1 / 128), tick_at 1005015625 (15 + 3 / 128)]
   \<and> statuses (fst (heartbeat_loop_from Linux scenario_watcher False
        [tick_at 1000000000 (10 + 1 / 128), tick_at 1005015625 (15 + 3 / 128)]))
       = [''not-afk'', ''not-afk'']
   \<and> stamps (fst (heartbeat_loop_from Linux scenario_watcher False
        [tick_at 1000000000 (10 + 1 / 128), tick_at 1005015625 (15 + 3 / 128)]))
       = [989992188, 989992187]
   \<and> \<not> sorted (stamps (fst (heartbeat_loop_from Linux scenario_watcher False
        [tick_at 1000000000 (10 + 1 / 128), tick_at 1005015625 (15 + 3 / 128)])))"
proof -
  have td: "timedelta (10 + 1 / 128) = 10007812" "timedelta (15 + 3 / 128) = 15023438"
    by code_simp+
  have h: "steady_run Linux scenario_watcher False
      [tick_at 1000000000 (10 + 1 / 128), tick_at 1005015625 (15 + 3 / 128)]"
    by (simp add: steady_def follows_def parent_died_def tick_at_def scenario_watcher_def
        sleep_poll_def idle_seconds_def)
  have hb: "heartbeats (fst (heartbeat_loop_from Linux scenario_watcher False
        [tick_at 1000000000 (10 + 1 / 128), tick_at 1005015625 (15 + 3 / 128)]))
      = [ping scenario_watcher False (1000000000 - timedelta (10 + 1 / 128)) None,
         ping scenario_watcher False (1005015625 - timedelta (15 + 3 / 128)) None]"
    by (simp add: cycle_def parent_died_def tick_at_def state_change_def sleep_poll_def
        scenario_watcher_def Let_def)
  show ?thesis
    using h hb td by (simp add: stamps_def statuses_def ping_def status_of_def)
qed

end
